theory Spec2Isabelle
  imports Main
begin

section \<open>Go strings\<close>

text \<open>
  A Go string is modelled as the sequence of its Unicode code points (runes); the
  model covers well-formed UTF-8 text, on which \<open>strings.HasPrefix\<close>,
  \<open>strings.TrimPrefix\<close>, \<open>strings.TrimSpace\<close>, \<open>strings.ToLower\<close> and the
  regular expression \<open>\s+\<close> all work rune by rune. A literal of the source is written
  \<open>str ''...''\<close>.
\<close>

type_synonym rune = nat

type_synonym gostring = "rune list"

definition str :: "string \<Rightarrow> gostring" where
  "str cs = map of_char cs"

text \<open>\<open>strings.HasPrefix(s, prefix)\<close> and \<open>strings.TrimPrefix(s, prefix)\<close>.\<close>

definition HasPrefix :: "gostring \<Rightarrow> gostring \<Rightarrow> bool" where
  "HasPrefix s pre = (length pre \<le> length s \<and> take (length pre) s = pre)"

definition TrimPrefix :: "gostring \<Rightarrow> gostring \<Rightarrow> gostring" where
  "TrimPrefix s pre = (if HasPrefix s pre then drop (length pre) s else s)"

text \<open>
  \<open>unicode.IsSpace\<close>: in Latin-1 the runes \<open>\t \n \v \f \r\<close>, space, U+0085 and
  U+00A0; above Latin-1 the White_Space property (U+1680, U+2000 to U+200A, U+2028,
  U+2029, U+202F, U+205F, U+3000).
\<close>

definition IsSpace :: "rune \<Rightarrow> bool" where
  "IsSpace r =
     (if r \<le> 255 then r = 9 \<or> r = 10 \<or> r = 11 \<or> r = 12 \<or> r = 13 \<or> r = 32 \<or> r = 133 \<or> r = 160
      else r = 5760 \<or> (8192 \<le> r \<and> r \<le> 8202) \<or> r = 8232 \<or> r = 8233 \<or> r = 8239
           \<or> r = 8287 \<or> r = 12288)"

text \<open>\<open>strings.TrimSpace\<close>: all leading and trailing white space removed.\<close>

definition TrimSpace :: "gostring \<Rightarrow> gostring" where
  "TrimSpace s = rev (dropWhile IsSpace (rev (dropWhile IsSpace s)))"

text \<open>
  The class \<open>\s\<close> of Go's regular expressions (RE2 syntax) is \<open>[\t\n\f\r ]\<close>: it is
  ASCII only and, unlike \<open>unicode.IsSpace\<close>, leaves out the vertical tab.
\<close>

definition reSpace :: "rune \<Rightarrow> bool" where
  "reSpace r = (r = 9 \<or> r = 10 \<or> r = 12 \<or> r = 13 \<or> r = 32)"

text \<open>
  \<open>whitespaceRe.ReplaceAllString(s, repl)\<close> for \<open>whitespaceRe = \s+\<close>: matches are
  found left to right and are greedy, so every maximal run of \<open>\s\<close> runes is replaced by
  \<open>repl\<close> (a replacement text without \<open>$\<close>, as the one the source passes).
\<close>

function whitespaceRe_ReplaceAllString :: "gostring \<Rightarrow> gostring \<Rightarrow> gostring" where
  "whitespaceRe_ReplaceAllString [] repl = []"
| "whitespaceRe_ReplaceAllString (c # cs) repl =
     (if reSpace c then repl @ whitespaceRe_ReplaceAllString (dropWhile reSpace cs) repl
      else c # whitespaceRe_ReplaceAllString cs repl)"
  by pat_completeness auto
termination
  by (relation "measure (\<lambda>(s, repl). length s)")
     (auto simp: length_dropWhile_le less_Suc_eq_le)

text \<open>
  \<open>unicode.ToLower\<close>: ASCII is handled by the function itself; every other rune is
  looked up in the case tables of Go's \<open>unicode\<close> package, which are not part of this
  repository and are a parameter \<open>tbl\<close> of the model. \<open>strings.ToLower\<close> maps every
  rune of the string.
\<close>

definition ToLowerRune :: "(rune \<Rightarrow> rune) \<Rightarrow> rune \<Rightarrow> rune" where
  "ToLowerRune tbl r =
     (if r \<le> 127 then (if 65 \<le> r \<and> r \<le> 90 then r + 32 else r) else tbl r)"

definition ToLower :: "(rune \<Rightarrow> rune) \<Rightarrow> gostring \<Rightarrow> gostring" where
  "ToLower tbl s = map (ToLowerRune tbl) s"

text \<open>
  What the proofs need of the case tables: lower-casing a rune twice is lower-casing it
  once, white space has no lower-case form of its own, and no other rune is mapped to
  white space.
\<close>

definition caseTableOK :: "(rune \<Rightarrow> rune) \<Rightarrow> bool" where
  "caseTableOK tbl =
     (\<forall>r. 127 < r \<longrightarrow>
        ToLowerRune tbl (tbl r) = tbl r \<and> (IsSpace r \<longrightarrow> tbl r = r) \<and>
        (\<not> IsSpace r \<longrightarrow> \<not> IsSpace (tbl r)))"

text \<open>The Latin-1 part of the tables (U+00C0 to U+00DE without the sign U+00D7).\<close>

definition latin1Lower :: "rune \<Rightarrow> rune" where
  "latin1Lower r = (if 192 \<le> r \<and> r \<le> 222 \<and> r \<noteq> 215 then r + 32 else r)"

section \<open>handoff.go\<close>

text \<open>\<open>normalizeAgentName\<close>: trim, replace white space runs by an underscore, lower-case.\<close>

definition normalizeAgentName :: "(rune \<Rightarrow> rune) \<Rightarrow> gostring \<Rightarrow> gostring" where
  "normalizeAgentName tbl agentName =
     ToLower tbl (whitespaceRe_ReplaceAllString (TrimSpace agentName) (str ''_''))"

section \<open>Messages, states, agents\<close>

text \<open>
  \<open>llms.MessageContent\<close> of langchaingo: a role and a list of parts; \<open>llms.TextParts\<close>
  builds a message whose parts are the given texts. Only text parts are built by this
  package; every other kind of part is \<open>OtherContent\<close>.
\<close>

datatype ContentPart = TextContent gostring | OtherContent gostring

record MessageContent =
  Role :: gostring
  Parts :: "ContentPart list"

definition TextParts :: "gostring \<Rightarrow> gostring list \<Rightarrow> MessageContent" where
  "TextParts role parts = \<lparr>Role = role, Parts = map TextContent parts\<rparr>"

text \<open>\<open>SwarmState\<close> (swarm.go).\<close>

record SwarmState =
  Messages :: "MessageContent list"
  ActiveAgent :: gostring

text \<open>
  A Go \<open>error\<close> is modelled by its message. A \<open>context.Context\<close> is opaque to this
  package, which only passes it on. A value of type \<open>any\<close> is a \<open>SwarmState\<close>, some
  other value, or nil.
\<close>

datatype error = Errorf gostring

datatype Context = Context nat

datatype AnyVal = SwarmStateVal SwarmState | OtherVal nat | NilVal

text \<open>
  \<open>Agent.Runnable\<close> has type \<open>any\<close>; the builders look at it through type
  assertions only. A value either has the method
  \<open>Invoke(context.Context, SwarmState) (any, error)\<close>, or the method
  \<open>Invoke(context.Context, SwarmState) (SwarmState, error)\<close>, or neither (nil
  included); a Go type cannot have both. The method itself is code of the caller: the
  model takes it as a function of the context and the state that returns its two
  results.
\<close>

datatype Runnable =
    Invoker "Context \<Rightarrow> SwarmState \<Rightarrow> AnyVal \<times> error option"
  | TypedInvoker "Context \<Rightarrow> SwarmState \<Rightarrow> SwarmState \<times> error option"
  | NoInvoke

record Agent =
  Name :: gostring
  Runnable :: Runnable
  Destinations :: "gostring list"

record SwarmConfig =
  Agents :: "Agent list"
  DefaultActiveAgent :: gostring
  ContextSchema :: AnyVal

section \<open>handoff.go: the handoff tool\<close>

text \<open>
  \<open>HandoffToolConfig\<close>; its field \<open>Name\<close> is \<open>ToolName\<close> here, \<open>Name\<close> being the
  field of \<open>Agent\<close>.
\<close>

record HandoffToolConfig =
  AgentName :: gostring
  ToolName :: gostring
  Description :: gostring

record handoffTool =
  name :: gostring
  description :: gostring
  agentName :: gostring

definition handoffTool_Name :: "handoffTool \<Rightarrow> gostring" where
  "handoffTool_Name t = name t"

definition handoffTool_Description :: "handoffTool \<Rightarrow> gostring" where
  "handoffTool_Description t = description t"

definition handoffTool_Call :: "handoffTool \<Rightarrow> Context \<Rightarrow> gostring \<Rightarrow> gostring \<times> error option" where
  "handoffTool_Call t ctx input = (str ''__HANDOFF__'' @ agentName t, None)"

text \<open>\<open>CreateHandoffTool\<close>; the apostrophe of the description is the rune 39.\<close>

definition CreateHandoffTool :: "(rune \<Rightarrow> rune) \<Rightarrow> HandoffToolConfig \<Rightarrow> handoffTool" where
  "CreateHandoffTool tbl config =
     (let name0 = ToolName config;
          name1 = (if name0 = [] then str ''transfer_to_'' @ normalizeAgentName tbl (AgentName config)
                   else name0);
          description0 = Description config;
          description1 = (if description0 = []
                          then str ''Ask agent '' @ [39] @ AgentName config @ [39] @ str '' for help''
                          else description0)
      in \<lparr>name = name1, description = description1, agentName = AgentName config\<rparr>)"

text \<open>
  \<open>CreateHandoffCommand\<close> returns a \<open>graph.Command\<close>: the node to go to and the update
  of the state, a map from field names to values.
\<close>

datatype UpdateVal = MessagesVal "MessageContent list" | StringVal gostring

record Command =
  Goto :: gostring
  Update :: "gostring \<rightharpoonup> UpdateVal"

definition CreateHandoffCommand :: "gostring \<Rightarrow> gostring \<Rightarrow> Command" where
  "CreateHandoffCommand targetAgent toolCallID =
     (let toolMessage = TextParts (str ''tool'') [str ''Successfully transferred to '' @ targetAgent]
      in \<lparr>Goto = targetAgent,
          Update = [str ''messages'' \<mapsto> MessagesVal [toolMessage],
                    str ''active_agent'' \<mapsto> StringVal targetAgent]\<rparr>)"

definition ParseHandoffResult :: "gostring \<Rightarrow> gostring \<times> bool" where
  "ParseHandoffResult result =
     (let handoffPrefix = str ''__HANDOFF__''
      in if HasPrefix result handoffPrefix then (TrimPrefix result handoffPrefix, True)
         else ([], False))"

definition isHandoffResponse :: "gostring \<Rightarrow> bool \<times> gostring" where
  "isHandoffResponse response =
     (if HasPrefix response (str ''__HANDOFF__'')
      then (True, TrimPrefix response (str ''__HANDOFF__''))
      else (False, []))"

text \<open>
  \<open>processHandoff\<close> receives the state by value and returns the changed copy; the
  caller's state keeps its messages (\<open>append\<close> writes past the caller's length only).
\<close>

definition processHandoff :: "SwarmState \<Rightarrow> gostring \<Rightarrow> SwarmState \<times> bool" where
  "processHandoff state toolResponse =
     (case isHandoffResponse toolResponse of
        (True, target) \<Rightarrow>
          (let toolMessage = TextParts (str ''tool'') [str ''Successfully transferred to '' @ target]
           in (state\<lparr>Messages := Messages state @ [toolMessage], ActiveAgent := target\<rparr>, True))
      | (False, _) \<Rightarrow> (state, False))"

section \<open>The graph of the execution engine\<close>

text \<open>
  The graph types of langgraphgo are not part of this repository. The model of a graph
  is the record of the calls the builders make on it: the entry point set, the nodes,
  the edges and the conditional edges added, in the order of the calls. Whether the
  graph value has the method
  \<open>AddConditionalEdges(string, func(SwarmState) string, map[string]string)\<close>, which
  \<open>addActiveAgentRouter\<close> asks for by a type assertion, is a property of the engine and
  a field of the model. A node function returns the new state and an error (or nil);
  what it prints on the way is the list of its print events.
\<close>

datatype PrintEvent =
    NodeExecuting gostring
  | FoundInvoke gostring
  | InvokeError error
  | GotResultState nat
  | ResultNotSwarmState
  | RunnableWithoutInvoke

type_synonym nodeFn = "Context \<Rightarrow> SwarmState \<Rightarrow> (SwarmState \<times> error option) \<times> PrintEvent list"

record Graph =
  hasAddConditionalEdges :: bool
  entryPoint :: gostring
  nodes :: "(gostring \<times> gostring \<times> nodeFn) list"
  edges :: "(gostring \<times> gostring) list"
  conditionalEdge :: "(gostring \<times> (Context \<Rightarrow> SwarmState \<Rightarrow> gostring)) list"
  conditionalEdges :: "(gostring \<times> (SwarmState \<Rightarrow> gostring) \<times> (gostring \<rightharpoonup> gostring)) list"

definition NewStateGraph :: "bool \<Rightarrow> Graph" where
  "NewStateGraph h =
     \<lparr>hasAddConditionalEdges = h, entryPoint = [], nodes = [], edges = [],
      conditionalEdge = [], conditionalEdges = []\<rparr>"

definition NewStreamingStateGraph :: "bool \<Rightarrow> Graph" where
  "NewStreamingStateGraph h = NewStateGraph h"

definition AddNode :: "Graph \<Rightarrow> gostring \<Rightarrow> gostring \<Rightarrow> nodeFn \<Rightarrow> Graph" where
  "AddNode g nm desc fn = g\<lparr>nodes := nodes g @ [(nm, desc, fn)]\<rparr>"

definition AddEdge :: "Graph \<Rightarrow> gostring \<Rightarrow> gostring \<Rightarrow> Graph" where
  "AddEdge g from to = g\<lparr>edges := edges g @ [(from, to)]\<rparr>"

definition AddConditionalEdge :: "Graph \<Rightarrow> gostring \<Rightarrow> (Context \<Rightarrow> SwarmState \<Rightarrow> gostring) \<Rightarrow> Graph" where
  "AddConditionalEdge g from cond = g\<lparr>conditionalEdge := conditionalEdge g @ [(from, cond)]\<rparr>"

definition AddConditionalEdges ::
  "Graph \<Rightarrow> gostring \<Rightarrow> (SwarmState \<Rightarrow> gostring) \<Rightarrow> (gostring \<rightharpoonup> gostring) \<Rightarrow> Graph" where
  "AddConditionalEdges g from route pathMap =
     g\<lparr>conditionalEdges := conditionalEdges g @ [(from, route, pathMap)]\<rparr>"

definition SetEntryPoint :: "Graph \<Rightarrow> gostring \<Rightarrow> Graph" where
  "SetEntryPoint g nm = g\<lparr>entryPoint := nm\<rparr>"

text \<open>\<open>graph.END\<close>, the engine's name of the terminal node; no proof looks into it.\<close>

definition END :: gostring where
  "END = str ''END''"

section \<open>swarm.go\<close>

text \<open>
  The search both builders and \<open>addActiveAgentRouter\<close> run before anything else:
  \<open>found := false\<close>, then a loop over the names that sets \<open>found\<close> and breaks at the
  first name equal to the default agent.
\<close>

fun found :: "gostring list \<Rightarrow> gostring \<Rightarrow> bool" where
  "found [] defaultActiveAgent = False"
| "found (nm # agentNames) defaultActiveAgent =
     (if nm = defaultActiveAgent then True else found agentNames defaultActiveAgent)"

text \<open>The verb \<open>%v\<close> of \<open>fmt\<close> on a slice of strings: the strings between brackets.\<close>

fun joinSpace :: "gostring list \<Rightarrow> gostring" where
  "joinSpace [] = []"
| "joinSpace [x] = x"
| "joinSpace (x # y # ys) = x @ str '' '' @ joinSpace (y # ys)"

definition fmtStrings :: "gostring list \<Rightarrow> gostring" where
  "fmtStrings xs = str ''['' @ joinSpace xs @ str '']''"

text \<open>The routing function \<open>routeFunc\<close>, a closure over \<open>defaultActiveAgent\<close>.\<close>

definition routeFunc :: "gostring \<Rightarrow> SwarmState \<Rightarrow> gostring" where
  "routeFunc defaultActiveAgent state =
     (if ActiveAgent state \<noteq> [] then ActiveAgent state else defaultActiveAgent)"

definition pathMap :: "gostring list \<Rightarrow> (gostring \<rightharpoonup> gostring)" where
  "pathMap agentNames = foldl (\<lambda>m nm. m(nm \<mapsto> nm)) Map.empty agentNames"

definition addActiveAgentRouter :: "Graph \<Rightarrow> gostring list \<Rightarrow> gostring \<Rightarrow> Graph \<times> error option" where
  "addActiveAgentRouter g agentNames defaultActiveAgent =
     (if \<not> found agentNames defaultActiveAgent
      then (g, Some (Errorf (str ''default active agent '' @ [39] @ defaultActiveAgent @ [39]
                             @ str '' not found in routes '' @ fmtStrings agentNames)))
      else ((if hasAddConditionalEdges g
             then AddConditionalEdges g (str ''__start__'') (routeFunc defaultActiveAgent)
                    (pathMap agentNames)
             else g), None))"

definition AddActiveAgentRouter :: "Graph \<Rightarrow> gostring list \<Rightarrow> gostring \<Rightarrow> Graph \<times> error option" where
  "AddActiveAgentRouter g agentNames defaultActiveAgent =
     addActiveAgentRouter g agentNames defaultActiveAgent"

text \<open>The node function \<open>nodeFunc\<close> of \<open>CreateSwarm\<close>, a closure over \<open>agentCopy\<close>.\<close>

definition nodeFunc :: "Agent \<Rightarrow> nodeFn" where
  "nodeFunc agentCopy ctx state =
     (case Runnable agentCopy of
        Invoker invoke \<Rightarrow>
          (case invoke ctx state of
             (result, Some err) \<Rightarrow> ((state, Some err), [])
           | (result, None) \<Rightarrow>
               (case result of
                  SwarmStateVal resultState \<Rightarrow> ((resultState, None), [])
                | _ \<Rightarrow> ((state, None), [])))
      | _ \<Rightarrow> ((state, None), []))"

text \<open>One round of the loop over the agents: the node, then an edge to every destination.\<close>

definition addAgent :: "Graph \<Rightarrow> Agent \<Rightarrow> Graph" where
  "addAgent g agent =
     foldl (\<lambda>g' dest. AddEdge g' (Name agent) dest)
       (AddNode g (Name agent) [] (nodeFunc agent)) (Destinations agent)"

text \<open>
  \<open>CreateSwarm\<close> returns \<open>(nil, err)\<close> or \<open>(g, nil)\<close>. The parameter \<open>h\<close> says whether
  the engine's graph has \<open>AddConditionalEdges\<close> (see above).
\<close>

definition CreateSwarm :: "bool \<Rightarrow> SwarmConfig \<Rightarrow> error + Graph" where
  "CreateSwarm h config =
     (if length (Agents config) = 0 then Inl (Errorf (str ''agents list cannot be empty''))
      else
        let agentNames = map Name (Agents config) in
        if \<not> found agentNames (DefaultActiveAgent config)
        then Inl (Errorf (str ''default active agent '' @ [39] @ DefaultActiveAgent config @ [39]
                          @ str '' not found in agent names '' @ fmtStrings agentNames))
        else
          (case addActiveAgentRouter (NewStateGraph h) agentNames (DefaultActiveAgent config) of
             (g, Some err) \<Rightarrow> Inl err
           | (g, None) \<Rightarrow> Inr (foldl addAgent g (Agents config))))"

section \<open>streaming.go\<close>

text \<open>The node function of \<open>CreateStreamingSwarm\<close>; it prints what it does.\<close>

definition streamingNodeFunc :: "Agent \<Rightarrow> nodeFn" where
  "streamingNodeFunc agentCopy ctx state =
     (case Runnable agentCopy of
        Invoker invoke \<Rightarrow>
          (case invoke ctx state of
             (result, Some err) \<Rightarrow>
               ((state, Some err),
                [NodeExecuting (Name agentCopy), FoundInvoke (Name agentCopy), InvokeError err])
           | (result, None) \<Rightarrow>
               (case result of
                  SwarmStateVal resultState \<Rightarrow>
                    ((resultState, None),
                     [NodeExecuting (Name agentCopy), FoundInvoke (Name agentCopy),
                      GotResultState (length (Messages resultState))])
                | _ \<Rightarrow>
                    ((state, None),
                     [NodeExecuting (Name agentCopy), FoundInvoke (Name agentCopy),
                      ResultNotSwarmState])))
      | _ \<Rightarrow> ((state, None), [NodeExecuting (Name agentCopy), RunnableWithoutInvoke]))"

text \<open>
  The conditional edge of an agent with destinations: the loop over the destinations
  returns the active agent at the first destination equal to it, and \<open>graph.END\<close> is
  returned when the loop ends or is not entered.
\<close>

fun routeToDestination :: "gostring list \<Rightarrow> gostring \<Rightarrow> gostring" where
  "routeToDestination [] activeAgent = END"
| "routeToDestination (dest # dests) activeAgent =
     (if dest = activeAgent then activeAgent else routeToDestination dests activeAgent)"

definition streamingRouteFunc :: "Agent \<Rightarrow> Context \<Rightarrow> SwarmState \<Rightarrow> gostring" where
  "streamingRouteFunc agentCopy ctx state =
     (if ActiveAgent state \<noteq> [] \<and> ActiveAgent state \<noteq> Name agentCopy
      then routeToDestination (Destinations agentCopy) (ActiveAgent state)
      else END)"

definition addStreamingEdge :: "Graph \<Rightarrow> Agent \<Rightarrow> Graph" where
  "addStreamingEdge g agent =
     (if length (Destinations agent) > 0
      then AddConditionalEdge g (Name agent) (streamingRouteFunc agent)
      else AddEdge g (Name agent) END)"

definition CreateStreamingSwarm :: "bool \<Rightarrow> SwarmConfig \<Rightarrow> error + Graph" where
  "CreateStreamingSwarm h config =
     (if length (Agents config) = 0 then Inl (Errorf (str ''agents list cannot be empty''))
      else
        let agentNames = map Name (Agents config) in
        if \<not> found agentNames (DefaultActiveAgent config)
        then Inl (Errorf (str ''default active agent '' @ [39] @ DefaultActiveAgent config @ [39]
                          @ str '' not found in agent names '' @ fmtStrings agentNames))
        else
          let g0 = SetEntryPoint (NewStreamingStateGraph h) (DefaultActiveAgent config);
              g1 = foldl (\<lambda>g agent. AddNode g (Name agent) [] (streamingNodeFunc agent)) g0
                     (Agents config)
          in Inr (foldl addStreamingEdge g1 (Agents config)))"

section \<open>The second copy of streaming.go\<close>

text \<open>
  The repository holds a second file with \<open>CreateStreamingSwarm\<close>
  (src/unnamed/part_000). It differs from swarm/streaming.go in the node function only:
  nothing is printed, and a runnable with the typed method
  \<open>Invoke(context.Context, SwarmState) (SwarmState, error)\<close> is tried first, its two
  results being returned as they are.
\<close>

definition typedFirstNodeFunc :: "Agent \<Rightarrow> nodeFn" where
  "typedFirstNodeFunc agentCopy ctx state =
     (case Runnable agentCopy of
        TypedInvoker invoke \<Rightarrow> (invoke ctx state, [])
      | Invoker invoke \<Rightarrow>
          (case invoke ctx state of
             (result, Some err) \<Rightarrow> ((state, Some err), [])
           | (result, None) \<Rightarrow>
               (case result of
                  SwarmStateVal resultState \<Rightarrow> ((resultState, None), [])
                | _ \<Rightarrow> ((state, None), [])))
      | NoInvoke \<Rightarrow> ((state, None), []))"

definition CreateStreamingSwarm2 :: "bool \<Rightarrow> SwarmConfig \<Rightarrow> error + Graph" where
  "CreateStreamingSwarm2 h config =
     (if length (Agents config) = 0 then Inl (Errorf (str ''agents list cannot be empty''))
      else
        let agentNames = map Name (Agents config) in
        if \<not> found agentNames (DefaultActiveAgent config)
        then Inl (Errorf (str ''default active agent '' @ [39] @ DefaultActiveAgent config @ [39]
                          @ str '' not found in agent names '' @ fmtStrings agentNames))
        else
          let g0 = SetEntryPoint (NewStreamingStateGraph h) (DefaultActiveAgent config);
              g1 = foldl (\<lambda>g agent. AddNode g (Name agent) [] (typedFirstNodeFunc agent)) g0
                     (Agents config)
          in Inr (foldl addStreamingEdge g1 (Agents config)))"

section \<open>Examples\<close>

text \<open>A swarm of two agents, Alice who may hand off to Bob, and two states.\<close>

definition alice :: Agent where
  "alice = \<lparr>Name = str ''Alice'', Runnable = NoInvoke, Destinations = [str ''Bob'']\<rparr>"

definition bob :: Agent where
  "bob = \<lparr>Name = str ''Bob'', Runnable = NoInvoke, Destinations = []\<rparr>"

definition exampleConfig :: SwarmConfig where
  "exampleConfig = \<lparr>Agents = [alice, bob], DefaultActiveAgent = str ''Alice'', ContextSchema = NilVal\<rparr>"

definition emptyState :: SwarmState where
  "emptyState = \<lparr>Messages = [], ActiveAgent = []\<rparr>"

definition helloState :: SwarmState where
  "helloState = \<lparr>Messages = [TextParts (str ''user'') [str ''Hello'']], ActiveAgent = str ''Alice''\<rparr>"

text \<open>
  Three \<open>Invoke\<close> methods: one fails with \<open>(nil, err)\<close>, one returns a value that is
  not a state and no error, and a typed one fails with the zero state and the error.
\<close>

definition failingInvoke :: "Context \<Rightarrow> SwarmState \<Rightarrow> AnyVal \<times> error option" where
  "failingInvoke ctx state = (NilVal, Some (Errorf (str ''boom'')))"

definition oddInvoke :: "Context \<Rightarrow> SwarmState \<Rightarrow> AnyVal \<times> error option" where
  "oddInvoke ctx state = (OtherVal 7, None)"

definition failingTypedInvoke :: "Context \<Rightarrow> SwarmState \<Rightarrow> SwarmState \<times> error option" where
  "failingTypedInvoke ctx state = (\<lparr>Messages = [], ActiveAgent = []\<rparr>, Some (Errorf (str ''boom'')))"

definition carol :: Agent where
  "carol = \<lparr>Name = str ''Carol'', Runnable = Invoker failingInvoke, Destinations = []\<rparr>"

definition dave :: Agent where
  "dave = \<lparr>Name = str ''Dave'', Runnable = TypedInvoker failingTypedInvoke, Destinations = []\<rparr>"

definition erin :: Agent where
  "erin = \<lparr>Name = str ''Erin'', Runnable = Invoker oddInvoke, Destinations = []\<rparr>"

section \<open>Prefixes and the search for the default agent\<close>

lemma HasPrefix_append: "HasPrefix (pre @ t) pre"
  by (simp add: HasPrefix_def)

lemma TrimPrefix_append: "TrimPrefix (pre @ t) pre = t"
  by (simp add: TrimPrefix_def HasPrefix_def)

lemma found_iff: "found agentNames d \<longleftrightarrow> d \<in> set agentNames"
  by (induction agentNames) auto

lemma addActiveAgentRouter_found:
  "found agentNames d \<Longrightarrow>
     addActiveAgentRouter g agentNames d =
       ((if hasAddConditionalEdges g
         then AddConditionalEdges g (str ''__start__'') (routeFunc d) (pathMap agentNames)
         else g), None)"
  by (simp add: addActiveAgentRouter_def)

section \<open>The active-agent router\<close>

text \<open>
  Claim C1. The routing function that \<open>addActiveAgentRouter\<close> installs (on a graph that
  takes it, for a default agent found among the names) is \<open>routeFunc d\<close>; for every
  state it returns the state's active agent when that is not the empty string and the
  default agent \<open>d\<close> when it is, whatever the messages of the state are.
\<close>

theorem active_agent_router:
  "(ActiveAgent state \<noteq> [] \<longrightarrow> routeFunc d state = ActiveAgent state) \<and>
   (ActiveAgent state = [] \<longrightarrow> routeFunc d state = d) \<and>
   routeFunc d (state\<lparr>Messages := ms\<rparr>) = routeFunc d state \<and>
   (found agentNames d \<and> hasAddConditionalEdges g \<longrightarrow>
      addActiveAgentRouter g agentNames d =
        (AddConditionalEdges g (str ''__start__'') (routeFunc d) (pathMap agentNames), None))"
  by (simp add: routeFunc_def addActiveAgentRouter_found)

theorem active_agent_router_witness:
  "routeFunc (str ''Alice'') \<lparr>Messages = [], ActiveAgent = str ''Bob''\<rparr> = str ''Bob'' \<and>
   routeFunc (str ''Alice'') emptyState = str ''Alice'' \<and>
   addActiveAgentRouter (NewStateGraph True) [str ''Alice'', str ''Bob''] (str ''Alice'') =
     (AddConditionalEdges (NewStateGraph True) (str ''__start__'') (routeFunc (str ''Alice''))
        (pathMap [str ''Alice'', str ''Bob'']), None)"
proof -
  have f: "found [str ''Alice'', str ''Bob''] (str ''Alice'')" by simp
  have h: "hasAddConditionalEdges (NewStateGraph True)" by (simp add: NewStateGraph_def)
  have b: "ActiveAgent \<lparr>Messages = [], ActiveAgent = str ''Bob''\<rparr> \<noteq> []" by (simp add: str_def)
  have e: "ActiveAgent emptyState = []" by (simp add: emptyState_def)
  show ?thesis
    using active_agent_router [of "\<lparr>Messages = [], ActiveAgent = str ''Bob''\<rparr>" "str ''Alice''" "[]"
                                 "[str ''Alice'', str ''Bob'']" "NewStateGraph True"]
          active_agent_router [of emptyState "str ''Alice''" "[]" "[]" "NewStateGraph True"]
          f h b e
    by simp
qed

section \<open>The handoff marker\<close>

text \<open>
  Claim C2. For every handoff tool and every input, \<open>Call\<close> returns the marker
  \<open>__HANDOFF__\<close> followed by the tool's target agent, with a nil error, and the input
  plays no part; \<open>ParseHandoffResult\<close> of that result is the target and true. The
  target of a tool made by \<open>CreateHandoffTool\<close> is the configured agent name. Of a
  string that does not start with the marker, \<open>ParseHandoffResult\<close> is the empty string
  and false.
\<close>

theorem handoff_round_trip:
  "handoffTool_Call t ctx input = (str ''__HANDOFF__'' @ agentName t, None) \<and>
   ParseHandoffResult (fst (handoffTool_Call t ctx input)) = (agentName t, True) \<and>
   agentName (CreateHandoffTool tbl config) = AgentName config \<and>
   (\<not> HasPrefix r (str ''__HANDOFF__'') \<longrightarrow> ParseHandoffResult r = ([], False))"
  by (simp add: handoffTool_Call_def ParseHandoffResult_def HasPrefix_append TrimPrefix_append
        CreateHandoffTool_def Let_def)

theorem handoff_round_trip_witness:
  "ParseHandoffResult
     (fst (handoffTool_Call
        (CreateHandoffTool latin1Lower \<lparr>AgentName = str ''Bob'', ToolName = [], Description = []\<rparr>)
        (Context 0) (str ''please''))) = (str ''Bob'', True) \<and>
   \<not> HasPrefix (str ''HANDOFF Bob'') (str ''__HANDOFF__'') \<and>
   ParseHandoffResult (str ''HANDOFF Bob'') = ([], False)"
proof -
  have n: "\<not> HasPrefix (str ''HANDOFF Bob'') (str ''__HANDOFF__'')"
    by (simp add: HasPrefix_def str_def)
  have a: "agentName (CreateHandoffTool latin1Lower
             \<lparr>AgentName = str ''Bob'', ToolName = [], Description = []\<rparr>) = str ''Bob''"
    by (simp add: CreateHandoffTool_def Let_def)
  show ?thesis
    using handoff_round_trip [of "CreateHandoffTool latin1Lower
             \<lparr>AgentName = str ''Bob'', ToolName = [], Description = []\<rparr>" "Context 0" "str ''please''"
             latin1Lower "\<lparr>AgentName = str ''Bob'', ToolName = [], Description = []\<rparr>" "str ''HANDOFF Bob''"]
          n a
    by metis
qed

section \<open>Validation at build time\<close>

lemma CreateSwarm_empty:
  "Agents config = [] \<Longrightarrow> CreateSwarm h config = Inl (Errorf (str ''agents list cannot be empty''))"
  by (simp add: CreateSwarm_def)

lemma CreateStreamingSwarm_empty:
  "Agents config = [] \<Longrightarrow>
     CreateStreamingSwarm h config = Inl (Errorf (str ''agents list cannot be empty''))"
  by (simp add: CreateStreamingSwarm_def)

lemma CreateStreamingSwarm2_empty:
  "Agents config = [] \<Longrightarrow>
     CreateStreamingSwarm2 h config = Inl (Errorf (str ''agents list cannot be empty''))"
  by (simp add: CreateStreamingSwarm2_def)

lemma CreateSwarm_unknown_default:
  "DefaultActiveAgent config \<notin> set (map Name (Agents config)) \<Longrightarrow> isl (CreateSwarm h config)"
  by (simp add: CreateSwarm_def Let_def found_iff)

lemma CreateStreamingSwarm_unknown_default:
  "DefaultActiveAgent config \<notin> set (map Name (Agents config)) \<Longrightarrow>
     isl (CreateStreamingSwarm h config)"
  by (simp add: CreateStreamingSwarm_def Let_def found_iff)

lemma CreateStreamingSwarm2_unknown_default:
  "DefaultActiveAgent config \<notin> set (map Name (Agents config)) \<Longrightarrow>
     isl (CreateStreamingSwarm2 h config)"
  by (simp add: CreateStreamingSwarm2_def Let_def found_iff)

lemma CreateSwarm_valid:
  assumes "Agents config \<noteq> []" "DefaultActiveAgent config \<in> set (map Name (Agents config))"
  shows "CreateSwarm h config =
           Inr (foldl addAgent
                  (if h then AddConditionalEdges (NewStateGraph h) (str ''__start__'')
                               (routeFunc (DefaultActiveAgent config)) (pathMap (map Name (Agents config)))
                   else NewStateGraph h)
                  (Agents config))"
proof -
  have f: "found (map Name (Agents config)) (DefaultActiveAgent config)"
    using assms(2) by (simp add: found_iff)
  have h: "hasAddConditionalEdges (NewStateGraph h) = h" by (simp add: NewStateGraph_def)
  show ?thesis
    using assms(1) f by (simp add: CreateSwarm_def Let_def addActiveAgentRouter_found h)
qed

lemma CreateStreamingSwarm_valid:
  assumes "Agents config \<noteq> []" "DefaultActiveAgent config \<in> set (map Name (Agents config))"
  shows "CreateStreamingSwarm h config =
           Inr (foldl addStreamingEdge
                  (foldl (\<lambda>g agent. AddNode g (Name agent) [] (streamingNodeFunc agent))
                     (SetEntryPoint (NewStreamingStateGraph h) (DefaultActiveAgent config))
                     (Agents config))
                  (Agents config))"
  using assms by (simp add: CreateStreamingSwarm_def Let_def found_iff)

lemma CreateStreamingSwarm2_valid:
  assumes "Agents config \<noteq> []" "DefaultActiveAgent config \<in> set (map Name (Agents config))"
  shows "CreateStreamingSwarm2 h config =
           Inr (foldl addStreamingEdge
                  (foldl (\<lambda>g agent. AddNode g (Name agent) [] (typedFirstNodeFunc agent))
                     (SetEntryPoint (NewStreamingStateGraph h) (DefaultActiveAgent config))
                     (Agents config))
                  (Agents config))"
  using assms by (simp add: CreateStreamingSwarm2_def Let_def found_iff)

lemma exampleConfig_names: "map Name (Agents exampleConfig) = [str ''Alice'', str ''Bob'']"
  by (simp add: exampleConfig_def alice_def bob_def)

text \<open>
  Claim C3. \<open>CreateSwarm\<close> returns an error and no graph when the list of agents is
  empty, and when the default active agent is the name of no agent of the list; it
  returns a graph and no error for every configuration with at least one agent whose
  default active agent is the name of one of them. Both copies of
  \<open>CreateStreamingSwarm\<close> validate in the same way.
\<close>

theorem build_validation:
  "(Agents config = [] \<longrightarrow>
      CreateSwarm h config = Inl (Errorf (str ''agents list cannot be empty'')) \<and>
      CreateStreamingSwarm h config = Inl (Errorf (str ''agents list cannot be empty'')) \<and>
      CreateStreamingSwarm2 h config = Inl (Errorf (str ''agents list cannot be empty''))) \<and>
   (DefaultActiveAgent config \<notin> set (map Name (Agents config)) \<longrightarrow>
      (\<exists>err. CreateSwarm h config = Inl err) \<and>
      (\<exists>err. CreateStreamingSwarm h config = Inl err) \<and>
      (\<exists>err. CreateStreamingSwarm2 h config = Inl err)) \<and>
   (Agents config \<noteq> [] \<and> DefaultActiveAgent config \<in> set (map Name (Agents config)) \<longrightarrow>
      (\<exists>g. CreateSwarm h config = Inr g) \<and>
      (\<exists>g. CreateStreamingSwarm h config = Inr g) \<and>
      (\<exists>g. CreateStreamingSwarm2 h config = Inr g))"
proof (intro conjI impI)
  assume u: "DefaultActiveAgent config \<notin> set (map Name (Agents config))"
  show "\<exists>err. CreateSwarm h config = Inl err"
    using CreateSwarm_unknown_default [OF u, of h] by (cases "CreateSwarm h config") auto
  show "\<exists>err. CreateStreamingSwarm h config = Inl err"
    using CreateStreamingSwarm_unknown_default [OF u, of h]
    by (cases "CreateStreamingSwarm h config") auto
  show "\<exists>err. CreateStreamingSwarm2 h config = Inl err"
    using CreateStreamingSwarm2_unknown_default [OF u, of h]
    by (cases "CreateStreamingSwarm2 h config") auto
qed (simp_all add: CreateSwarm_empty CreateStreamingSwarm_empty CreateStreamingSwarm2_empty
       CreateSwarm_valid CreateStreamingSwarm_valid CreateStreamingSwarm2_valid)

theorem build_validation_witness:
  "(\<exists>g. CreateSwarm True exampleConfig = Inr g) \<and>
   (\<exists>g. CreateStreamingSwarm True exampleConfig = Inr g) \<and>
   (\<exists>err. CreateSwarm True (exampleConfig\<lparr>DefaultActiveAgent := str ''Carol''\<rparr>) = Inl err) \<and>
   CreateSwarm True (exampleConfig\<lparr>Agents := []\<rparr>) = Inl (Errorf (str ''agents list cannot be empty''))"
proof -
  have ne: "Agents exampleConfig \<noteq> []" by (simp add: exampleConfig_def)
  have d: "DefaultActiveAgent exampleConfig \<in> set (map Name (Agents exampleConfig))"
    by (simp add: exampleConfig_names) (simp add: exampleConfig_def)
  have c: "DefaultActiveAgent (exampleConfig\<lparr>DefaultActiveAgent := str ''Carol''\<rparr>)
             \<notin> set (map Name (Agents (exampleConfig\<lparr>DefaultActiveAgent := str ''Carol''\<rparr>)))"
    by (simp add: exampleConfig_names) (simp add: str_def)
  have e: "Agents (exampleConfig\<lparr>Agents := []\<rparr>) = []" by simp
  show ?thesis
    using build_validation [of exampleConfig True]
          build_validation [of "exampleConfig\<lparr>DefaultActiveAgent := str ''Carol''\<rparr>" True]
          build_validation [of "exampleConfig\<lparr>Agents := []\<rparr>" True]
          ne d c e
    by blast
qed

section \<open>Applying a handoff\<close>

text \<open>
  Claim C4. For every state and every handoff marker for a target, \<open>processHandoff\<close>
  returns true and the state with the target as active agent and with one message more
  at the end of the messages, of role \<open>tool\<close> and text
  \<open>Successfully transferred to <target>\<close>; the state has no other field. For every
  string that does not start with the marker it returns the state as it was, and false.
  The command of \<open>CreateHandoffCommand\<close> goes to the target and carries the same two
  changes as its update: that one message, and the target as active agent.
\<close>

theorem handoff_application:
  "processHandoff state (str ''__HANDOFF__'' @ target) =
     (state\<lparr>Messages := Messages state @
               [TextParts (str ''tool'') [str ''Successfully transferred to '' @ target]],
            ActiveAgent := target\<rparr>, True) \<and>
   (\<not> HasPrefix r (str ''__HANDOFF__'') \<longrightarrow> processHandoff state r = (state, False)) \<and>
   Goto (CreateHandoffCommand target toolCallID) = target \<and>
   Update (CreateHandoffCommand target toolCallID) (str ''messages'') =
     Some (MessagesVal [TextParts (str ''tool'') [str ''Successfully transferred to '' @ target]]) \<and>
   Update (CreateHandoffCommand target toolCallID) (str ''active_agent'') = Some (StringVal target)"
proof -
  have k: "str ''messages'' \<noteq> str ''active_agent''" by (simp add: str_def)
  show ?thesis
    by (simp add: processHandoff_def isHandoffResponse_def HasPrefix_append TrimPrefix_append
          CreateHandoffCommand_def Let_def k)
qed

theorem handoff_application_witness:
  "processHandoff emptyState (str ''__HANDOFF__'' @ str ''Bob'') =
     (\<lparr>Messages = [\<lparr>Role = str ''tool'',
                     Parts = [TextContent (str ''Successfully transferred to '' @ str ''Bob'')]\<rparr>],
       ActiveAgent = str ''Bob''\<rparr>, True) \<and>
   \<not> HasPrefix (str ''sunny, 21 degrees'') (str ''__HANDOFF__'') \<and>
   processHandoff emptyState (str ''sunny, 21 degrees'') = (emptyState, False)"
proof -
  have n: "\<not> HasPrefix (str ''sunny, 21 degrees'') (str ''__HANDOFF__'')"
    by (simp add: HasPrefix_def str_def)
  show ?thesis
    using handoff_application [of emptyState "str ''Bob''" "str ''sunny, 21 degrees''" "[]"] n
    by (simp add: emptyState_def TextParts_def)
qed

text \<open>
  Claim C5, as stated, asks that handoff application lets only names of registered
  agents into \<open>ActiveAgent\<close>. It does not: in the swarm of Alice and Bob, which
  \<open>CreateSwarm\<close> accepts, the marker for the unregistered name Ghost is applied and
  Ghost becomes the active agent.
\<close>

theorem unregistered_handoff_target:
  "\<not> isl (CreateSwarm True exampleConfig) \<and>
   snd (processHandoff emptyState (str ''__HANDOFF__Ghost'')) \<and>
   ActiveAgent (fst (processHandoff emptyState (str ''__HANDOFF__Ghost''))) = str ''Ghost'' \<and>
   str ''Ghost'' \<noteq> [] \<and>
   str ''Ghost'' \<notin> set (map Name (Agents exampleConfig))"
proof -
  have s: "str ''__HANDOFF__Ghost'' = str ''__HANDOFF__'' @ str ''Ghost''" by (simp add: str_def)
  have v: "\<not> isl (CreateSwarm True exampleConfig)"
    by (subst CreateSwarm_valid) (simp_all add: exampleConfig_names, simp_all add: exampleConfig_def)
  have p: "processHandoff emptyState (str ''__HANDOFF__Ghost'') =
             (emptyState\<lparr>Messages := Messages emptyState @
                 [TextParts (str ''tool'') [str ''Successfully transferred to '' @ str ''Ghost'']],
               ActiveAgent := str ''Ghost''\<rparr>, True)"
    unfolding s
    by (simp add: processHandoff_def isHandoffResponse_def HasPrefix_append TrimPrefix_append)
  have g: "str ''Ghost'' \<noteq> []" "str ''Ghost'' \<notin> set (map Name (Agents exampleConfig))"
    by (simp_all add: exampleConfig_names) (simp_all add: str_def)
  show ?thesis using v p g by simp
qed

text \<open>
  Claim C5, amended. Whenever a handoff is applied to a state, the active agent of the
  resulting state is the target that the marker carries, whatever it is: the target is
  not checked against the agents of any swarm, so the result names a registered agent
  exactly when the target does. \<open>CreateHandoffCommand\<close> likewise goes to the target and
  sets it as active agent unchecked.
\<close>

theorem handoff_target_unchecked:
  "ActiveAgent (fst (processHandoff state (str ''__HANDOFF__'' @ target))) = target \<and>
   (ActiveAgent (fst (processHandoff state (str ''__HANDOFF__'' @ target)))
      \<in> set (map Name (Agents config))) = (target \<in> set (map Name (Agents config))) \<and>
   Goto (CreateHandoffCommand target toolCallID) = target \<and>
   Update (CreateHandoffCommand target toolCallID) (str ''active_agent'') = Some (StringVal target)"
  by (simp add: processHandoff_def isHandoffResponse_def HasPrefix_append TrimPrefix_append
        CreateHandoffCommand_def Let_def)

theorem handoff_target_unchecked_witness:
  "ActiveAgent (fst (processHandoff emptyState (str ''__HANDOFF__'' @ str ''Bob''))) = str ''Bob'' \<and>
   ActiveAgent (fst (processHandoff emptyState (str ''__HANDOFF__'' @ str ''Bob'')))
      \<in> set (map Name (Agents exampleConfig)) \<and>
   Goto (CreateHandoffCommand (str ''Bob'') []) = str ''Bob''"
proof -
  have b: "str ''Bob'' \<in> set (map Name (Agents exampleConfig))"
    by (simp add: exampleConfig_names)
  show ?thesis
    using handoff_target_unchecked [of emptyState "str ''Bob''" exampleConfig "[]"] b
    by simp
qed

section \<open>Transitions of the streaming swarm\<close>

lemma routeToDestination_eq:
  "routeToDestination dests activeAgent = (if activeAgent \<in> set dests then activeAgent else END)"
  by (induction dests) auto

lemma streamingRouteFunc_eq:
  "streamingRouteFunc agent ctx state =
     (if ActiveAgent state \<noteq> [] \<and> ActiveAgent state \<noteq> Name agent \<and>
         ActiveAgent state \<in> set (Destinations agent)
      then ActiveAgent state else END)"
  by (simp add: streamingRouteFunc_def routeToDestination_eq)

lemma foldl_AddNode_edges:
  "edges (foldl (\<lambda>g agent. AddNode g (Name agent) [] (f agent)) g0 agents) = edges g0 \<and>
   conditionalEdge (foldl (\<lambda>g agent. AddNode g (Name agent) [] (f agent)) g0 agents) =
     conditionalEdge g0"
  by (induction agents arbitrary: g0) (simp_all add: AddNode_def)

lemma foldl_addStreamingEdge:
  "edges (foldl addStreamingEdge g agents) =
     edges g @ map (\<lambda>a. (Name a, END)) (filter (\<lambda>a. Destinations a = []) agents) \<and>
   conditionalEdge (foldl addStreamingEdge g agents) =
     conditionalEdge g @
       map (\<lambda>a. (Name a, streamingRouteFunc a)) (filter (\<lambda>a. Destinations a \<noteq> []) agents)"
  by (induction agents arbitrary: g)
     (simp_all add: addStreamingEdge_def AddEdge_def AddConditionalEdge_def)

lemma streaming_graph_edges:
  assumes "g = foldl addStreamingEdge
                 (foldl (\<lambda>g agent. AddNode g (Name agent) [] (f agent))
                    (SetEntryPoint (NewStreamingStateGraph h) d) agents) agents"
  shows "edges g = map (\<lambda>a. (Name a, END)) (filter (\<lambda>a. Destinations a = []) agents)"
    and "conditionalEdge g =
           map (\<lambda>a. (Name a, streamingRouteFunc a)) (filter (\<lambda>a. Destinations a \<noteq> []) agents)"
  unfolding assms
  by (simp_all add: foldl_addStreamingEdge foldl_AddNode_edges SetEntryPoint_def
        NewStreamingStateGraph_def NewStateGraph_def)

text \<open>
  Claim C6. In a graph built by \<open>CreateStreamingSwarm\<close> (either copy), the conditional
  edges are those of the agents with destinations, in the order of the agents, each
  from the agent's node with the agent's transition function; the plain edges are
  those of the agents without destinations, each from the agent's node to
  \<open>graph.END\<close>. The transition function of an agent returns the state's active agent
  when that is not empty, is not the agent's own name and is one of the agent's
  destinations, and \<open>graph.END\<close> in every other case.
\<close>

theorem streaming_transitions:
  "(CreateStreamingSwarm h config = Inr g \<or> CreateStreamingSwarm2 h config = Inr g \<longrightarrow>
      conditionalEdge g =
        map (\<lambda>a. (Name a, streamingRouteFunc a))
          (filter (\<lambda>a. Destinations a \<noteq> []) (Agents config)) \<and>
      edges g = map (\<lambda>a. (Name a, END)) (filter (\<lambda>a. Destinations a = []) (Agents config))) \<and>
   streamingRouteFunc agent ctx state =
     (if ActiveAgent state \<noteq> [] \<and> ActiveAgent state \<noteq> Name agent \<and>
         ActiveAgent state \<in> set (Destinations agent)
      then ActiveAgent state else END)"
proof (intro conjI impI)
  assume a: "CreateStreamingSwarm h config = Inr g \<or> CreateStreamingSwarm2 h config = Inr g"
  have ok: "Agents config \<noteq> []" "DefaultActiveAgent config \<in> set (map Name (Agents config))"
    using a
    by (auto simp: CreateStreamingSwarm_def CreateStreamingSwarm2_def Let_def found_iff
          split: if_splits)
  have g:
    "g = foldl addStreamingEdge
           (foldl (\<lambda>g agent. AddNode g (Name agent) [] (streamingNodeFunc agent))
              (SetEntryPoint (NewStreamingStateGraph h) (DefaultActiveAgent config))
              (Agents config)) (Agents config) \<or>
     g = foldl addStreamingEdge
           (foldl (\<lambda>g agent. AddNode g (Name agent) [] (typedFirstNodeFunc agent))
              (SetEntryPoint (NewStreamingStateGraph h) (DefaultActiveAgent config))
              (Agents config)) (Agents config)"
    using a CreateStreamingSwarm_valid [OF ok, of h] CreateStreamingSwarm2_valid [OF ok, of h]
    by auto
  note e1 = streaming_graph_edges [of g streamingNodeFunc h "DefaultActiveAgent config" "Agents config"]
  note e2 = streaming_graph_edges [of g typedFirstNodeFunc h "DefaultActiveAgent config" "Agents config"]
  show "conditionalEdge g =
        map (\<lambda>a. (Name a, streamingRouteFunc a))
          (filter (\<lambda>a. Destinations a \<noteq> []) (Agents config))"
    using g e1(2) e2(2) by blast
  show "edges g = map (\<lambda>a. (Name a, END)) (filter (\<lambda>a. Destinations a = []) (Agents config))"
    using g e1(1) e2(1) by blast
qed (rule streamingRouteFunc_eq)


theorem streaming_transitions_witness:
  "conditionalEdge (projr (CreateStreamingSwarm True exampleConfig)) =
     [(str ''Alice'', streamingRouteFunc alice)] \<and>
   edges (projr (CreateStreamingSwarm True exampleConfig)) = [(str ''Bob'', END)] \<and>
   streamingRouteFunc alice (Context 0) (emptyState\<lparr>ActiveAgent := str ''Bob''\<rparr>) = str ''Bob'' \<and>
   streamingRouteFunc alice (Context 0) (emptyState\<lparr>ActiveAgent := str ''Carol''\<rparr>) = END \<and>
   streamingRouteFunc alice (Context 0) (emptyState\<lparr>ActiveAgent := str ''Alice''\<rparr>) = END \<and>
   streamingRouteFunc alice (Context 0) emptyState = END"
proof -
  have ne: "Agents exampleConfig \<noteq> []" by (simp add: exampleConfig_def)
  have d: "DefaultActiveAgent exampleConfig \<in> set (map Name (Agents exampleConfig))"
    by (simp add: exampleConfig_names) (simp add: exampleConfig_def)
  obtain g where g: "CreateStreamingSwarm True exampleConfig = Inr g"
    using CreateStreamingSwarm_valid [OF ne d] by blast
  have ag: "Agents exampleConfig = [alice, bob]" by (simp add: exampleConfig_def)
  have ds: "Destinations alice = [str ''Bob'']" "Destinations bob = []"
           "Name alice = str ''Alice''" "Name bob = str ''Bob''"
    by (simp_all add: alice_def bob_def)
  have neq: "str ''Bob'' \<noteq> str ''Alice''" "str ''Carol'' \<noteq> str ''Alice''"
            "str ''Carol'' \<noteq> str ''Bob''" "str ''Bob'' \<noteq> []" "str ''Carol'' \<noteq> []"
            "str ''Alice'' \<noteq> []"
    by (simp_all add: str_def)
  show ?thesis
    using streaming_transitions [of True exampleConfig g alice "Context 0"
            "emptyState\<lparr>ActiveAgent := str ''Bob''\<rparr>"]
          streaming_transitions [of True exampleConfig g alice "Context 0"
            "emptyState\<lparr>ActiveAgent := str ''Carol''\<rparr>"]
          streaming_transitions [of True exampleConfig g alice "Context 0"
            "emptyState\<lparr>ActiveAgent := str ''Alice''\<rparr>"]
          streaming_transitions [of True exampleConfig g alice "Context 0" emptyState]
          g ag ds neq
    by (simp add: emptyState_def)
qed

section \<open>Node functions: errors and mismatches\<close>

text \<open>
  On the path through \<open>Invoke(context.Context, SwarmState) (any, error)\<close>, all three
  node functions return the runnable's error together with their input state.
\<close>

lemma node_error_propagation:
  "Runnable agent = Invoker invoke \<Longrightarrow> invoke ctx state = (result, Some err) \<Longrightarrow>
     fst (nodeFunc agent ctx state) = (state, Some err) \<and>
     fst (streamingNodeFunc agent ctx state) = (state, Some err) \<and>
     fst (typedFirstNodeFunc agent ctx state) = (state, Some err)"
  by (simp add: nodeFunc_def streamingNodeFunc_def typedFirstNodeFunc_def)

lemma node_error_keeps_state:
  "snd (fst (nodeFunc agent ctx state)) = Some err \<Longrightarrow>
     fst (nodeFunc agent ctx state) = (state, Some err)"
  "snd (fst (streamingNodeFunc agent ctx state)) = Some err \<Longrightarrow>
     fst (streamingNodeFunc agent ctx state) = (state, Some err)"
  by (auto simp: nodeFunc_def streamingNodeFunc_def
        split: Runnable.splits prod.splits option.splits AnyVal.splits)

text \<open>
  Claim C7. For every agent node, when the agent's runnable returns an error, the node
  function is to return that same error together with its input state, unchanged. The
  node functions of \<open>CreateSwarm\<close> and of \<open>CreateStreamingSwarm\<close> (swarm/streaming.go)
  do so, as does the path through \<open>Invoke(...) (any, error)\<close> of the second copy of
  \<open>CreateStreamingSwarm\<close> (the two lemmas above). The typed path of the second copy
  does not: for the agent Dave, whose typed \<open>Invoke\<close> fails with the zero state and the
  error \<open>boom\<close>, and the state with one user message and Alice as active agent, the
  node function returns the error together with the zero state, which is not its input
  state.
\<close>

theorem typed_invoke_error_state:
  "Runnable dave = TypedInvoker failingTypedInvoke \<and>
   failingTypedInvoke (Context 0) helloState =
     (\<lparr>Messages = [], ActiveAgent = []\<rparr>, Some (Errorf (str ''boom''))) \<and>
   fst (typedFirstNodeFunc dave (Context 0) helloState) =
     (\<lparr>Messages = [], ActiveAgent = []\<rparr>, Some (Errorf (str ''boom''))) \<and>
   \<lparr>Messages = [], ActiveAgent = []\<rparr> \<noteq> helloState \<and>
   fst (nodeFunc carol (Context 0) helloState) = (helloState, Some (Errorf (str ''boom''))) \<and>
   fst (streamingNodeFunc carol (Context 0) helloState) = (helloState, Some (Errorf (str ''boom''))) \<and>
   fst (typedFirstNodeFunc carol (Context 0) helloState) = (helloState, Some (Errorf (str ''boom'')))"
  by (simp add: dave_def carol_def failingTypedInvoke_def failingInvoke_def typedFirstNodeFunc_def
        nodeFunc_def streamingNodeFunc_def helloState_def)

text \<open>
  Claim C10. For every agent whose runnable does not have the method
  \<open>Invoke(context.Context, SwarmState) (any, error)\<close>, and for every agent whose
  \<open>Invoke\<close> returns a value that is not a \<open>SwarmState\<close>, the node functions of
  \<open>CreateSwarm\<close> and of \<open>CreateStreamingSwarm\<close> return their input state unchanged and
  a nil error: the mismatch is silent. The code looks at the type of the returned value
  only after it has found the error nil, so a mismatch of the value is one that comes
  with a nil error. The node function of the second copy of \<open>CreateStreamingSwarm\<close>
  does the same for a runnable with no \<open>Invoke\<close> at all and for a returned value that
  is not a \<open>SwarmState\<close>.
\<close>

theorem node_mismatch_is_silent:
  "(Runnable agent = NoInvoke \<or> Runnable agent = TypedInvoker typedInvoke \<longrightarrow>
      fst (nodeFunc agent ctx state) = (state, None) \<and>
      fst (streamingNodeFunc agent ctx state) = (state, None)) \<and>
   (Runnable agent = NoInvoke \<longrightarrow> fst (typedFirstNodeFunc agent ctx state) = (state, None)) \<and>
   (Runnable agent = Invoker invoke \<and> invoke ctx state = (result, None) \<and>
    (\<forall>resultState. result \<noteq> SwarmStateVal resultState) \<longrightarrow>
      fst (nodeFunc agent ctx state) = (state, None) \<and>
      fst (streamingNodeFunc agent ctx state) = (state, None) \<and>
      fst (typedFirstNodeFunc agent ctx state) = (state, None))"
  by (cases result) (auto simp: nodeFunc_def streamingNodeFunc_def typedFirstNodeFunc_def)

theorem node_mismatch_is_silent_witness:
  "fst (nodeFunc alice (Context 0) helloState) = (helloState, None) \<and>
   fst (streamingNodeFunc alice (Context 0) helloState) = (helloState, None) \<and>
   fst (typedFirstNodeFunc alice (Context 0) helloState) = (helloState, None) \<and>
   fst (nodeFunc dave (Context 0) helloState) = (helloState, None) \<and>
   fst (streamingNodeFunc dave (Context 0) helloState) = (helloState, None) \<and>
   fst (nodeFunc erin (Context 0) helloState) = (helloState, None) \<and>
   fst (streamingNodeFunc erin (Context 0) helloState) = (helloState, None) \<and>
   fst (typedFirstNodeFunc erin (Context 0) helloState) = (helloState, None)"
proof -
  have a: "Runnable alice = NoInvoke" by (simp add: alice_def)
  have d: "Runnable dave = TypedInvoker failingTypedInvoke" by (simp add: dave_def)
  have e: "Runnable erin = Invoker oddInvoke" "oddInvoke (Context 0) helloState = (OtherVal 7, None)"
          "\<forall>resultState. OtherVal 7 \<noteq> SwarmStateVal resultState"
    by (simp_all add: erin_def oddInvoke_def)
  show ?thesis
    using node_mismatch_is_silent [of alice failingTypedInvoke "Context 0" helloState oddInvoke
            "OtherVal 7"]
          node_mismatch_is_silent [of dave failingTypedInvoke "Context 0" helloState oddInvoke
            "OtherVal 7"]
          node_mismatch_is_silent [of erin failingTypedInvoke "Context 0" helloState oddInvoke
            "OtherVal 7"]
          a d e
    by simp
qed

section \<open>Names of handoff tools\<close>

text \<open>
  Claim C8. With an empty \<open>Name\<close>, \<open>CreateHandoffTool\<close> names the tool \<open>transfer_to_\<close>
  followed by the normalized name of the target agent, and with an empty
  \<open>Description\<close> it describes the tool as \<open>Ask agent '<target>' for help\<close> with the
  name of the target as it is; a \<open>Name\<close> or \<open>Description\<close> that is not empty is used as
  it is. For the target Bob the defaults are \<open>transfer_to_bob\<close> and
  \<open>Ask agent 'Bob' for help\<close>.
\<close>

theorem handoff_tool_defaults:
  "(ToolName config = [] \<longrightarrow>
      handoffTool_Name (CreateHandoffTool tbl config) =
        str ''transfer_to_'' @ normalizeAgentName tbl (AgentName config)) \<and>
   (ToolName config \<noteq> [] \<longrightarrow> handoffTool_Name (CreateHandoffTool tbl config) = ToolName config) \<and>
   (Description config = [] \<longrightarrow>
      handoffTool_Description (CreateHandoffTool tbl config) =
        str ''Ask agent '' @ [39] @ AgentName config @ [39] @ str '' for help'') \<and>
   (Description config \<noteq> [] \<longrightarrow>
      handoffTool_Description (CreateHandoffTool tbl config) = Description config) \<and>
   handoffTool_Name
     (CreateHandoffTool tbl \<lparr>AgentName = str ''Bob'', ToolName = [], Description = []\<rparr>) =
     str ''transfer_to_bob'' \<and>
   handoffTool_Description
     (CreateHandoffTool tbl \<lparr>AgentName = str ''Bob'', ToolName = [], Description = []\<rparr>) =
     str ''Ask agent '' @ [39] @ str ''Bob'' @ [39] @ str '' for help''"
proof -
  have n: "normalizeAgentName tbl (str ''Bob'') = str ''bob''"
    by (simp add: normalizeAgentName_def str_def TrimSpace_def IsSpace_def reSpace_def
          ToLower_def ToLowerRune_def)
  have t: "str ''transfer_to_'' @ str ''bob'' = str ''transfer_to_bob''" by (simp add: str_def)
  show ?thesis
    by (simp add: CreateHandoffTool_def handoffTool_Name_def handoffTool_Description_def Let_def n t)
qed

theorem handoff_tool_defaults_witness:
  "handoffTool_Name
     (CreateHandoffTool latin1Lower
        \<lparr>AgentName = str ''TestAgent'', ToolName = str ''test_tool'',
         Description = str ''Test handoff tool''\<rparr>) = str ''test_tool'' \<and>
   handoffTool_Description
     (CreateHandoffTool latin1Lower
        \<lparr>AgentName = str ''TestAgent'', ToolName = str ''test_tool'',
         Description = str ''Test handoff tool''\<rparr>) = str ''Test handoff tool'' \<and>
   handoffTool_Name
     (CreateHandoffTool latin1Lower \<lparr>AgentName = str ''Bob'', ToolName = [], Description = []\<rparr>) =
     str ''transfer_to_bob'' \<and>
   handoffTool_Description
     (CreateHandoffTool latin1Lower \<lparr>AgentName = str ''Alice'', ToolName = [], Description = []\<rparr>) =
     str ''Ask agent '' @ [39] @ str ''Alice'' @ [39] @ str '' for help''"
proof -
  have a: "ToolName \<lparr>AgentName = str ''TestAgent'', ToolName = str ''test_tool'',
             Description = str ''Test handoff tool''\<rparr> \<noteq> []"
          "Description \<lparr>AgentName = str ''TestAgent'', ToolName = str ''test_tool'',
             Description = str ''Test handoff tool''\<rparr> \<noteq> []"
    by (simp_all add: str_def)
  show ?thesis
    using handoff_tool_defaults [of "\<lparr>AgentName = str ''TestAgent'', ToolName = str ''test_tool'',
             Description = str ''Test handoff tool''\<rparr>" latin1Lower]
          handoff_tool_defaults [of "\<lparr>AgentName = str ''Alice'', ToolName = [], Description = []\<rparr>"
             latin1Lower]
          a
    by simp
qed

section \<open>Normalization of agent names\<close>

lemma reSpace_IsSpace: "reSpace r \<Longrightarrow> IsSpace r"
  by (auto simp: reSpace_def IsSpace_def)

lemma last_dropWhile_keep: "dropWhile P xs \<noteq> [] \<Longrightarrow> last (dropWhile P xs) = last xs"
  by (induction xs) (auto split: if_splits)

lemma TrimSpace_fixed:
  assumes "s \<noteq> []" "\<not> IsSpace (hd s)" "\<not> IsSpace (last s)"
  shows "TrimSpace s = s"
proof -
  have "dropWhile IsSpace s = s"
    using assms by (simp add: dropWhile_eq_self_iff)
  moreover have "dropWhile IsSpace (rev s) = rev s"
    using assms by (simp add: dropWhile_eq_self_iff hd_rev)
  ultimately show ?thesis by (simp add: TrimSpace_def)
qed

lemma TrimSpace_ends:
  assumes "TrimSpace x \<noteq> []"
  shows "\<not> IsSpace (hd (TrimSpace x)) \<and> \<not> IsSpace (last (TrimSpace x))"
proof -
  define u where "u = dropWhile IsSpace x"
  define v where "v = dropWhile IsSpace (rev u)"
  have t: "TrimSpace x = rev v" by (simp add: TrimSpace_def u_def v_def)
  with assms have v: "v \<noteq> []" by simp
  then have u: "u \<noteq> []" by (auto simp: v_def)
  have "\<not> IsSpace (hd v)" using v unfolding v_def by (rule hd_dropWhile)
  moreover have "last v = last (rev u)" using v unfolding v_def by (rule last_dropWhile_keep)
  moreover have "\<not> IsSpace (hd u)" using u unfolding u_def by (rule hd_dropWhile)
  ultimately show ?thesis using u v by (simp add: t hd_rev last_rev)
qed

lemma replace_no_space:
  "\<forall>c \<in> set s. \<not> reSpace c \<Longrightarrow> whitespaceRe_ReplaceAllString s repl = s"
  by (induction s) auto

lemma replace_set:
  "\<forall>c \<in> set repl. \<not> reSpace c \<Longrightarrow> c \<in> set (whitespaceRe_ReplaceAllString s repl) \<Longrightarrow> \<not> reSpace c"
  by (induction s repl rule: whitespaceRe_ReplaceAllString.induct) (auto split: if_splits)

lemma replace_hd:
  "s \<noteq> [] \<Longrightarrow> \<not> reSpace (hd s) \<Longrightarrow> hd (whitespaceRe_ReplaceAllString s repl) = hd s \<and> whitespaceRe_ReplaceAllString s repl \<noteq> []"
  by (cases s) auto

lemma replace_last:
  "s \<noteq> [] \<Longrightarrow> \<not> reSpace (last s) \<Longrightarrow>
     last (whitespaceRe_ReplaceAllString s repl) = last s \<and> whitespaceRe_ReplaceAllString s repl \<noteq> []"
proof (induction s repl rule: whitespaceRe_ReplaceAllString.induct)
  case (1 repl)
  then show ?case by simp
next
  case (2 c cs repl)
  show ?case
  proof (cases "reSpace c")
    case True
    with 2(3,4) have cs: "cs \<noteq> []" by auto
    with 2(4) have lc: "\<not> reSpace (last cs)" by simp
    have "dropWhile reSpace cs \<noteq> []"
      using cs lc by (metis dropWhile_eq_Nil_conv last_in_set)
    then have d: "dropWhile reSpace cs \<noteq> []" "last (dropWhile reSpace cs) = last cs"
      by (simp_all add: last_dropWhile_keep)
    with 2(1)[OF True] lc
    have "last (whitespaceRe_ReplaceAllString (dropWhile reSpace cs) repl) = last cs"
      and "whitespaceRe_ReplaceAllString (dropWhile reSpace cs) repl \<noteq> []"
      by simp_all
    then show ?thesis using True cs by simp
  next
    case False
    show ?thesis
    proof (cases "cs = []")
      case True
      then show ?thesis using False by simp
    next
      case ne: False
      with 2(2)[OF False] 2(4) show ?thesis using False by simp
    qed
  qed
qed

lemma ToLowerRune_idem: "caseTableOK tbl \<Longrightarrow> ToLowerRune tbl (ToLowerRune tbl r) = ToLowerRune tbl r"
  by (auto simp: caseTableOK_def ToLowerRune_def)

lemma IsSpace_lower_letters: "97 \<le> r \<Longrightarrow> r \<le> 122 \<Longrightarrow> \<not> IsSpace r"
  by (simp add: IsSpace_def)

lemma ToLowerRune_space:
  assumes ok: "caseTableOK tbl" and ns: "\<not> IsSpace r"
  shows "\<not> IsSpace (ToLowerRune tbl r)"
proof (cases "r \<le> 127")
  case True
  show ?thesis
  proof (cases "65 \<le> r \<and> r \<le> 90")
    case True
    then have "\<not> IsSpace (r + 32)" by (intro IsSpace_lower_letters) simp_all
    then show ?thesis using True by (simp add: ToLowerRune_def)
  next
    case False
    then show ?thesis using True ns by (auto simp: ToLowerRune_def)
  qed
next
  case False
  then show ?thesis using ok ns by (simp add: caseTableOK_def ToLowerRune_def)
qed

lemma ToLowerRune_reSpace: "caseTableOK tbl \<Longrightarrow> \<not> reSpace r \<Longrightarrow> \<not> reSpace (ToLowerRune tbl r)"
proof (cases "r \<le> 127")
  case True
  assume "\<not> reSpace r" then show ?thesis using True by (auto simp: ToLowerRune_def reSpace_def)
next
  case False
  assume ok: "caseTableOK tbl"
  show ?thesis
  proof (cases "IsSpace r")
    case True
    with ok False have "tbl r = r" by (simp add: caseTableOK_def)
    then show ?thesis using False by (simp add: ToLowerRune_def reSpace_def)
  next
    case ns: False
    with ok False have "\<not> IsSpace (tbl r)" by (simp add: caseTableOK_def)
    then show ?thesis using False reSpace_IsSpace by (auto simp: ToLowerRune_def)
  qed
qed

lemma normalizeAgentName_fixed:
  assumes ok: "caseTableOK tbl"
  shows "normalizeAgentName tbl (normalizeAgentName tbl x) = normalizeAgentName tbl x"
proof -
  define t where "t = TrimSpace x"
  define y where "y = whitespaceRe_ReplaceAllString t (str ''_'')"
  define z where "z = ToLower tbl y"
  have z: "normalizeAgentName tbl x = z"
    by (simp add: normalizeAgentName_def t_def y_def z_def)
  have us: "\<forall>c \<in> set (str ''_''). \<not> reSpace c"
    by (simp add: str_def reSpace_def)
  have y_ns: "\<forall>c \<in> set y. \<not> reSpace c"
    using replace_set[OF us] by (auto simp: y_def)
  have z_ns: "\<forall>c \<in> set z. \<not> reSpace c"
    using y_ns ToLowerRune_reSpace[OF ok] by (auto simp: z_def ToLower_def)
  have trim: "TrimSpace z = z"
  proof (cases "t = []")
    case True
    then show ?thesis by (simp add: z_def y_def ToLower_def TrimSpace_def)
  next
    case False
    then have e: "\<not> IsSpace (hd t)" "\<not> IsSpace (last t)"
      using TrimSpace_ends[of x] by (simp_all add: t_def)
    then have r: "\<not> reSpace (hd t)" "\<not> reSpace (last t)"
      using reSpace_IsSpace by blast+
    have y: "y \<noteq> []" "hd y = hd t" "last y = last t"
      using replace_hd[OF False r(1)] replace_last[OF False r(2)] by (simp_all add: y_def)
    have "z \<noteq> []" "hd z = ToLowerRune tbl (hd t)" "last z = ToLowerRune tbl (last t)"
      using y by (simp_all add: z_def ToLower_def hd_map last_map)
    then show ?thesis
      using e ToLowerRune_space[OF ok] by (intro TrimSpace_fixed) simp_all
  qed
  have rep: "whitespaceRe_ReplaceAllString z (str ''_'') = z"
    using z_ns by (rule replace_no_space)
  have low: "ToLower tbl z = z"
    using ToLowerRune_idem[OF ok] by (simp add: z_def ToLower_def)
  show ?thesis
    unfolding z by (simp add: normalizeAgentName_def trim rep low)
qed

lemma IsSpace_latin1_letters: "161 \<le> r \<Longrightarrow> r \<le> 255 \<Longrightarrow> \<not> IsSpace r"
  by (simp add: IsSpace_def)

lemma caseTableOK_latin1Lower: "caseTableOK latin1Lower"
proof -
  have "ToLowerRune latin1Lower (latin1Lower r) = latin1Lower r \<and>
        (IsSpace r \<longrightarrow> latin1Lower r = r) \<and> (\<not> IsSpace r \<longrightarrow> \<not> IsSpace (latin1Lower r))"
    if "127 < r" for r
  proof (cases "192 \<le> r \<and> r \<le> 222 \<and> r \<noteq> 215")
    case True
    then have "\<not> IsSpace r" and "\<not> IsSpace (r + 32)"
      by (simp_all add: IsSpace_latin1_letters)
    then show ?thesis using True by (simp add: latin1Lower_def ToLowerRune_def)
  next
    case False
    then show ?thesis using that by (auto simp: latin1Lower_def ToLowerRune_def)
  qed
  then show ?thesis by (simp add: caseTableOK_def)
qed

text \<open>
  Claim C9. \<open>normalizeAgentName\<close> is idempotent: normalizing a normalized name changes
  nothing, for every string and every case table of the kind described above. It maps
  \<open>SimpleAgent\<close> to \<open>simpleagent\<close>, \<open>Agent With Spaces\<close> to \<open>agent_with_spaces\<close>, the
  string \<open>Trim Me\<close> with two spaces on each side to \<open>trim_me\<close>, and \<open>Multiple   Spaces\<close>
  to \<open>multiple_spaces\<close>.
\<close>

theorem normalizeAgentName_idempotent:
  "caseTableOK tbl \<Longrightarrow>
     normalizeAgentName tbl (normalizeAgentName tbl x) = normalizeAgentName tbl x \<and>
     normalizeAgentName tbl (str ''SimpleAgent'') = str ''simpleagent'' \<and>
     normalizeAgentName tbl (str ''Agent With Spaces'') = str ''agent_with_spaces'' \<and>
     normalizeAgentName tbl (str ''  Trim Me  '') = str ''trim_me'' \<and>
     normalizeAgentName tbl (str ''Multiple   Spaces'') = str ''multiple_spaces''"
proof (intro conjI)
  assume "caseTableOK tbl"
  then show "normalizeAgentName tbl (normalizeAgentName tbl x) = normalizeAgentName tbl x"
    by (rule normalizeAgentName_fixed)
qed (simp_all add: normalizeAgentName_def str_def TrimSpace_def IsSpace_def reSpace_def
       ToLower_def ToLowerRune_def)

theorem normalizeAgentName_idempotent_witness:
  "caseTableOK latin1Lower \<and>
   normalizeAgentName latin1Lower [32, 201, 99, 32, 32, 65, 9] = [233, 99, 95, 97] \<and>
   normalizeAgentName latin1Lower [233, 99, 95, 97] = [233, 99, 95, 97] \<and>
   normalizeAgentName latin1Lower (str ''Agent With Spaces'') = str ''agent_with_spaces''"
proof -
  have v: "normalizeAgentName latin1Lower [32, 201, 99, 32, 32, 65, 9] = [233, 99, 95, 97]"
    by (simp add: normalizeAgentName_def str_def TrimSpace_def IsSpace_def reSpace_def
          ToLower_def ToLowerRune_def latin1Lower_def)
  show ?thesis
    using normalizeAgentName_idempotent [OF caseTableOK_latin1Lower, of "[32, 201, 99, 32, 32, 65, 9]"] caseTableOK_latin1Lower v
    by simp
qed

end
